theory Spec2Isabelle
  imports Complex_Main
begin

section \<open>Python values: exceptions, dictionaries, strings\<close>

text \<open>
  The converter is a Python script. Every exception it can raise is a value here: a failing
  dictionary lookup is \<open>KeyError\<close>, a failing list index is \<open>IndexError\<close>, and
  \<open>ValueError\<close> is what the rotation library raises when it refuses a matrix. Nothing in the
  script catches an exception, so the first one ends the run.
\<close>

datatype pyerr = KeyError | IndexError | ValueError

text \<open>Sequencing of fallible steps: the first exception wins.\<close>

definition and_then :: "pyerr + 'a \<Rightarrow> ('a \<Rightarrow> pyerr + 'b) \<Rightarrow> pyerr + 'b" where
  "and_then r f = (case r of Inl e \<Rightarrow> Inl e | Inr v \<Rightarrow> f v)"

text \<open>
  A Python \<open>dict\<close> keeps insertion order; storing under a key that is already there replaces
  the value and keeps the key's place. It is an association list with distinct keys.
\<close>

fun dict_set :: "('k \<times> 'v) list \<Rightarrow> 'k \<Rightarrow> 'v \<Rightarrow> ('k \<times> 'v) list" where
  "dict_set [] k v = [(k, v)]"
| "dict_set ((k', v') # d) k v =
     (if k' = k then (k', v) # d else (k', v') # dict_set d k v)"

text \<open>\<open>d[k]\<close>: the value, or \<open>KeyError\<close>.\<close>

definition dict_get :: "('k \<times> 'v) list \<Rightarrow> 'k \<Rightarrow> pyerr + 'v" where
  "dict_get d k = (case map_of d k of None \<Rightarrow> Inl KeyError | Some v \<Rightarrow> Inr v)"

text \<open>
  The id variables of \<open>main\<close> start as \<open>None\<close> and may still be \<open>None\<close> when they index a
  dictionary whose keys are all strings: that lookup is a \<open>KeyError\<close>.
\<close>

definition dict_get_id :: "(string \<times> 'v) list \<Rightarrow> string option \<Rightarrow> pyerr + 'v" where
  "dict_get_id d k = (case k of None \<Rightarrow> Inl KeyError | Some s \<Rightarrow> dict_get d s)"

text \<open>\<open>xs[0]\<close> and \<open>xs[1]\<close>: the element, or \<open>IndexError\<close>.\<close>

definition index0 :: "'a list \<Rightarrow> pyerr + 'a" where
  "index0 xs = (case xs of [] \<Rightarrow> Inl IndexError | x # _ \<Rightarrow> Inr x)"

definition index1 :: "'a list \<Rightarrow> pyerr + 'a" where
  "index1 xs = (case xs of x # y # _ \<Rightarrow> Inr y | _ \<Rightarrow> Inl IndexError)"

text \<open>\<open>str.lower()\<close> on the ASCII letters; every other character is kept.\<close>

definition lower_char :: "char \<Rightarrow> char" where
  "lower_char c =
     (case map_of (zip ''ABCDEFGHIJKLMNOPQRSTUVWXYZ'' ''abcdefghijklmnopqrstuvwxyz'') c of
        None \<Rightarrow> c
      | Some l \<Rightarrow> l)"

definition lower :: "string \<Rightarrow> string" where
  "lower s = map lower_char s"

text \<open>\<open>needle in hay\<close> for strings, and the number of places where \<open>needle\<close> starts.\<close>

fun starts_with :: "string \<Rightarrow> string \<Rightarrow> bool" where
  "starts_with [] s = True"
| "starts_with (a # as) [] = False"
| "starts_with (a # as) (c # cs) = (a = c \<and> starts_with as cs)"

fun str_in :: "string \<Rightarrow> string \<Rightarrow> bool" where
  "str_in n [] = (n = [])"
| "str_in n (c # cs) = (starts_with n (c # cs) \<or> str_in n cs)"

fun count_str :: "string \<Rightarrow> string \<Rightarrow> nat" where
  "count_str n [] = 0"
| "count_str n (c # cs) = (if starts_with n (c # cs) then 1 else 0) + count_str n cs"

section \<open>Number formatting\<close>

text \<open>
  Numbers are modelled by their exact values, as reals: the rounding of floating-point
  arithmetic, infinities, NaN and the negative zero are outside the model. The format
  \<open>:.6f\<close> prints the sign, the integer part and six decimals of the value rounded half to
  even.
\<close>

definition digit_char :: "nat \<Rightarrow> char" where
  "digit_char d = ''0123456789'' ! d"

fun digits :: "nat \<Rightarrow> string" where
  "digits n = (if n < 10 then [digit_char n] else digits (n div 10) @ [digit_char (n mod 10)])"

declare digits.simps [simp del]

definition round_half_even :: "real \<Rightarrow> int" where
  "round_half_even x =
     (let f = \<lfloor>x\<rfloor>; d = x - of_int f
      in if d < 1 / 2 then f else if 1 / 2 < d then f + 1 else if even f then f else f + 1)"

definition fmt6 :: "real \<Rightarrow> string" where
  "fmt6 x =
     (let n = nat (round_half_even (\<bar>x\<bar> * 1000000));
          frac = digits (n mod 1000000)
      in (if x < 0 then ''-'' else '''') @ digits (n div 1000000) @ ''.''
         @ replicate (6 - length frac) (CHR ''0'') @ frac)"

type_synonym vec3 = "real \<times> real \<times> real"

text \<open>A quaternion as four components in the order of whoever produced it.\<close>

type_synonym quat = "real \<times> real \<times> real \<times> real"

text \<open>\<open>fmt_pos\<close> and \<open>fmt_quat\<close>, lines 120 to 124 of the converter.\<close>

fun fmt_pos :: "vec3 \<Rightarrow> string" where
  "fmt_pos (p0, p1, p2) = fmt6 p0 @ '' '' @ fmt6 p1 @ '' '' @ fmt6 p2"

fun fmt_quat :: "quat \<Rightarrow> string" where
  "fmt_quat (q0, q1, q2, q3) = fmt6 q0 @ '' '' @ fmt6 q1 @ '' '' @ fmt6 q2 @ '' '' @ fmt6 q3"

text \<open>The subtraction of two numpy vectors of three components.\<close>

fun vsub :: "vec3 \<Rightarrow> vec3 \<Rightarrow> vec3" where
  "vsub (a0, a1, a2) (b0, b1, b2) = (a0 - b0, a1 - b1, a2 - b2)"

section \<open>The transform extractor\<close>

type_synonym mat3 = "vec3 \<times> vec3 \<times> vec3"

text \<open>
  \<open>Rotation.from_matrix(rot).as_quat()\<close> is library code (scipy), not part of the
  repository. The converter is modelled for any such conversion: a function from the three
  rows of the matrix to an exception or the quaternion in the library's order (x, y, z, w).
\<close>

type_synonym rotation_lib = "mat3 \<Rightarrow> pyerr + quat"

text \<open>The translation entries, line 27, and the rotation rows, lines 30 to 34.\<close>

definition world_position :: "real list \<Rightarrow> vec3" where
  "world_position t = (t ! 3, t ! 7, t ! 11)"

definition rotation_block :: "real list \<Rightarrow> mat3" where
  "rotation_block t =
     ((t ! 0, t ! 4, t ! 8),
      (t ! 1, t ! 5, t ! 9),
      (t ! 2, t ! 6, t ! 10))"

text \<open>
  \<open>transform_to_pos_quat\<close>, lines 20 to 40. The largest index it reads is 11, so a list
  of fewer than twelve values raises \<open>IndexError\<close>; it makes no other check of its own. The
  library's quaternion (x, y, z, w) is reordered to (w, x, y, z).
\<close>

definition transform_to_pos_quat :: "rotation_lib \<Rightarrow> real list \<Rightarrow> pyerr + (vec3 \<times> quat)" where
  "transform_to_pos_quat lib t =
     (if length t < 12 then Inl IndexError
      else and_then (lib (rotation_block t))
             (\<lambda>(x, y, z, w). Inr (world_position t, (w, x, y, z))))"

subsection \<open>The library conversion\<close>

text \<open>
  The conversion itself is not under src/: it is the library's \<open>from_matrix\<close> followed
  by \<open>as_quat()\<close>, which the converter calls without \<open>canonical=True\<close>. Section 4.1
  of the specification describes its algorithm: the largest of the three diagonal entries
  and the trace selects one of four formulas, so that the selected component is never near
  zero, and the result is normalized to unit length. The four definitions below model it,
  with the formulas of the library's \<open>from_matrix\<close>.
\<close>

text \<open>
  Modelled from the spec: the selection of the largest of the three diagonal entries and
  the trace, which is missing from src/. Ties go to the first maximum.
\<close>

definition argmax4 :: "real \<Rightarrow> real \<Rightarrow> real \<Rightarrow> real \<Rightarrow> nat" where
  "argmax4 d0 d1 d2 d3 =
     (let (i, v) = (0, d0);
          (i, v) = (if v < d1 then (1, d1) else (i, v));
          (i, v) = (if v < d2 then (2, d2) else (i, v));
          (i, v) = (if v < d3 then (3, d3) else (i, v))
      in i)"

text \<open>
  Modelled from the spec: the normalization to a unit quaternion, which is missing from
  src/. A zero quaternion is left as it is.
\<close>

definition normalize4 :: "quat \<Rightarrow> quat" where
  "normalize4 q =
     (case q of (x, y, z, w) \<Rightarrow>
        let norm = sqrt (x * x + y * y + z * z + w * w)
        in if norm = 0 then (x, y, z, w) else (x / norm, y / norm, z / norm, w / norm))"

text \<open>
  Modelled from the spec: the quaternion (x, y, z, w) before normalization, which is
  missing from src/, by the formula that the largest term selects. The rows of the matrix
  are \<open>(m00, m01, m02)\<close>, \<open>(m10, m11, m12)\<close> and \<open>(m20, m21, m22)\<close>.
\<close>

definition raw_quat :: "mat3 \<Rightarrow> quat" where
  "raw_quat m =
     (case m of ((m00, m01, m02), (m10, m11, m12), (m20, m21, m22)) \<Rightarrow>
        let tr = m00 + m11 + m22; choice = argmax4 m00 m11 m22 tr
        in if choice = 0 then (1 - tr + 2 * m00, m10 + m01, m20 + m02, m21 - m12)
           else if choice = 1 then (m01 + m10, 1 - tr + 2 * m11, m21 + m12, m02 - m20)
           else if choice = 2 then (m02 + m20, m12 + m21, 1 - tr + 2 * m22, m10 - m01)
           else (m21 - m12, m02 - m20, m10 - m01, 1 + tr))"

text \<open>
  Modelled from the spec: \<open>Rotation.from_matrix(rot).as_quat()\<close>, which is missing from
  src/. It raises for no matrix, and it returns the normalized quaternion with the sign
  that the formula gives it.
\<close>

definition from_matrix_as_quat :: rotation_lib where
  "from_matrix_as_quat m = Inr (normalize4 (raw_quat m))"

section \<open>The input documents\<close>

text \<open>
  The two JSON documents the converter loads, with the keys it reads. A key the script reads
  with \<open>[...]\<close> is a field; the key \<open>fixed\<close>, read with \<open>.get\<close>, may be absent
  (\<open>None\<close>). \<open>limits\<close> stands for the limit parameters of a mate record (name and value):
  the converter never reads them.
\<close>

record inst =
  inst_id :: string
  inst_name :: string

record occurrence =
  path :: "string list"
  transform :: "real list"
  fixed :: "bool option"

record mate_connector =
  zAxis :: "real list"
  origin :: "real list"

record mated_entity =
  matedOccurrence :: "string list"
  matedCS :: mate_connector

record feature_data =
  mateType :: string
  matedEntities :: "mated_entity list"
  limits :: "(string \<times> real) list"

record feature =
  featureData :: feature_data

record root_assembly =
  instances :: "inst list"
  occurrences :: "occurrence list"
  features :: "feature list"

record mesh_entry =
  instanceId :: string
  filename :: string

section \<open>The converter\<close>

text \<open>Lines 48 to 50: the three dictionaries. \<open>occ['path'][0]\<close> raises on an empty path.\<close>

definition instances_dict :: "inst list \<Rightarrow> (string \<times> inst) list" where
  "instances_dict xs = foldl (\<lambda>d i. dict_set d (inst_id i) i) [] xs"

fun occurrences_dict ::
  "occurrence list \<Rightarrow> (string \<times> occurrence) list \<Rightarrow> pyerr + (string \<times> occurrence) list" where
  "occurrences_dict [] d = Inr d"
| "occurrences_dict (occ # occs) d =
     (case path occ of
        [] \<Rightarrow> Inl IndexError
      | k # _ \<Rightarrow> occurrences_dict occs (dict_set d k occ))"

definition mesh_map :: "mesh_entry list \<Rightarrow> (string \<times> string) list" where
  "mesh_map ms = foldl (\<lambda>d m. dict_set d (instanceId m) (filename m)) [] ms"

text \<open>Lines 53 to 57: the first occurrence whose \<open>fixed\<close> is true.\<close>

fun find_fixed :: "occurrence list \<Rightarrow> pyerr + string option" where
  "find_fixed [] = Inr None"
| "find_fixed (occ # occs) =
     (if fixed occ = Some True then and_then (index0 (path occ)) (\<lambda>k. Inr (Some k))
      else find_fixed occs)"

text \<open>
  Lines 59 to 64: \<open>not fixed_id\<close> holds for \<open>None\<close> and for the empty string; then the
  first instance whose lower-cased name contains \<open>motor\<close> is taken, if there is one.
\<close>

fun first_motor :: "(string \<times> inst) list \<Rightarrow> string option" where
  "first_motor [] = None"
| "first_motor ((i, x) # d) =
     (if str_in ''motor'' (lower (inst_name x)) then Some i else first_motor d)"

definition default_to_motor :: "string option \<Rightarrow> (string \<times> inst) list \<Rightarrow> string option" where
  "default_to_motor fixed_id insts =
     (if fixed_id = None \<or> fixed_id = Some []
      then (case first_motor insts of None \<Rightarrow> fixed_id | Some i \<Rightarrow> Some i)
      else fixed_id)"

text \<open>
  Lines 66 to 70: the base is looked up in the instances (for its name) and in the
  occurrences, and its transform is converted. The pose is not used afterwards.
\<close>

definition base_reference ::
  "rotation_lib \<Rightarrow> (string \<times> inst) list \<Rightarrow> (string \<times> occurrence) list \<Rightarrow> string option
     \<Rightarrow> pyerr + (vec3 \<times> quat)" where
  "base_reference lib insts occs fixed_id =
     and_then (dict_get_id insts fixed_id) (\<lambda>_.
     and_then (dict_get_id occs fixed_id) (\<lambda>base_occ.
       transform_to_pos_quat lib (transform base_occ)))"

text \<open>
  Lines 73 to 76: every occurrence is printed with its instance's name and position. Only
  the exceptions of the loop are modelled, not the printed text.
\<close>

fun print_positions ::
  "rotation_lib \<Rightarrow> (string \<times> inst) list \<Rightarrow> (string \<times> occurrence) list \<Rightarrow> pyerr + unit" where
  "print_positions lib insts [] = Inr ()"
| "print_positions lib insts ((i, occ) # rest) =
     and_then (dict_get insts i) (\<lambda>_.
     and_then (transform_to_pos_quat lib (transform occ)) (\<lambda>_.
       print_positions lib insts rest))"

text \<open>
  Lines 79 to 94: for every mate of type \<open>CYLINDRICAL\<close> the two mated instances are looked
  up and the connector's axis and origin are read and printed. The value returned is what
  the variables \<open>axis\<close> and \<open>origin\<close> hold after the loop, if they were assigned.
\<close>

fun cylindrical_mates ::
  "(string \<times> inst) list \<Rightarrow> feature list \<Rightarrow> (real list \<times> real list) option
     \<Rightarrow> pyerr + (real list \<times> real list) option" where
  "cylindrical_mates insts [] seen = Inr seen"
| "cylindrical_mates insts (feat # feats) seen =
     (let fd = featureData feat in
      if mateType fd = ''CYLINDRICAL'' then
        and_then (index0 (matedEntities fd)) (\<lambda>e0.
        and_then (index0 (matedOccurrence e0)) (\<lambda>horn_id.
        and_then (index1 (matedEntities fd)) (\<lambda>e1.
        and_then (index0 (matedOccurrence e1)) (\<lambda>motor_id.
        and_then (dict_get insts horn_id) (\<lambda>_.
        and_then (dict_get insts motor_id) (\<lambda>_.
          cylindrical_mates insts feats (Some (zAxis (matedCS e0), origin (matedCS e0)))))))))
      else cylindrical_mates insts feats seen)"

text \<open>Lines 98 to 112: the four parts are found by name; a later match replaces an earlier one.\<close>

record part_ids =
  motor_id :: "string option"
  horn_id :: "string option"
  joint1_id :: "string option"
  joint2_id :: "string option"

definition no_ids :: part_ids where
  "no_ids = \<lparr>motor_id = None, horn_id = None, joint1_id = None, joint2_id = None\<rparr>"

fun scan_names :: "(string \<times> inst) list \<Rightarrow> part_ids \<Rightarrow> part_ids" where
  "scan_names [] ids = ids"
| "scan_names ((i, x) # rest) ids =
     (let name = lower (inst_name x) in
      scan_names rest
        (if str_in ''motor'' name then ids\<lparr>motor_id := Some i\<rparr>
         else if str_in ''horn'' name then ids\<lparr>horn_id := Some i\<rparr>
         else if str_in ''joint #1'' name \<or> str_in ''joint_1'' name then ids\<lparr>joint1_id := Some i\<rparr>
         else if str_in ''joint #2'' name \<or> str_in ''joint_2'' name then ids\<lparr>joint2_id := Some i\<rparr>
         else ids))"

text \<open>Lines 115 to 118: the transform of one of the four parts.\<close>

definition part_pose ::
  "rotation_lib \<Rightarrow> (string \<times> occurrence) list \<Rightarrow> string option \<Rightarrow> pyerr + (vec3 \<times> quat)" where
  "part_pose lib occs i =
     and_then (dict_get_id occs i) (\<lambda>occ. transform_to_pos_quat lib (transform occ))"

text \<open>
  The values the template interpolates: the four mesh file names, the motor's world pose,
  and for the other three bodies the relative position and the quaternion.
\<close>

record locals =
  mesh_motor :: string
  mesh_horn :: string
  mesh_joint1 :: string
  mesh_joint2 :: string
  motor_pos :: vec3
  motor_quat :: quat
  j2_rel :: vec3
  j2_quat :: quat
  horn_rel :: vec3
  horn_quat :: quat
  j1_rel :: vec3
  j1_quat :: quat

text \<open>
  Lines 115 to 130 and the lookups of the template: the poses in the order motor, horn,
  joint 1, joint 2, the relative positions of lines 128 to 130, then the mesh files in the
  order the template names them.
\<close>

definition compute_locals ::
  "rotation_lib \<Rightarrow> (string \<times> occurrence) list \<Rightarrow> (string \<times> string) list \<Rightarrow> part_ids
     \<Rightarrow> pyerr + locals" where
  "compute_locals lib occs meshes ids =
     and_then (part_pose lib occs (motor_id ids)) (\<lambda>(motor_p, motor_q).
     and_then (part_pose lib occs (horn_id ids)) (\<lambda>(horn_p, horn_q).
     and_then (part_pose lib occs (joint1_id ids)) (\<lambda>(j1_p, j1_q).
     and_then (part_pose lib occs (joint2_id ids)) (\<lambda>(j2_p, j2_q).
     and_then (dict_get_id meshes (motor_id ids)) (\<lambda>f_motor.
     and_then (dict_get_id meshes (horn_id ids)) (\<lambda>f_horn.
     and_then (dict_get_id meshes (joint1_id ids)) (\<lambda>f_joint1.
     and_then (dict_get_id meshes (joint2_id ids)) (\<lambda>f_joint2.
       Inr \<lparr>mesh_motor = f_motor, mesh_horn = f_horn,
            mesh_joint1 = f_joint1, mesh_joint2 = f_joint2,
            motor_pos = motor_p, motor_quat = motor_q,
            j2_rel = vsub j2_p motor_p, j2_quat = j2_q,
            horn_rel = vsub horn_p motor_p, horn_quat = horn_q,
            j1_rel = vsub j1_p horn_p, j1_quat = j1_q\<rparr>))))))))"

text \<open>
  The template of lines 137 to 194, line by line; every line ends with its newline.
\<close>

definition mjcf_lines :: "locals \<Rightarrow> string list" where
  \<open>mjcf_lines l =
     [
      ''<mujoco model="onshape_robot">\<newline>'',
      ''  <compiler angle="radian" meshdir="output/meshes" autolimits="true"/>\<newline>'',
      ''  <option gravity="0 0 -9.81" timestep="0.002"/>\<newline>'',
      ''  \<newline>'',
      ''  <visual>\<newline>'',
      ''    <global offwidth="1280" offheight="720"/>\<newline>'',
      ''  </visual>\<newline>'',
      ''  \<newline>'',
      ''  <asset>\<newline>'',
      ''    <texture name="grid" type="2d" builtin="checker" rgb1="0.1 0.2 0.3" rgb2="0.2 0.3 0.4" width="512" height="512"/>\<newline>'',
      ''    <material name="grid_mat" texture="grid" texrepeat="5 5" reflectance="0.2"/>\<newline>'',
      ''    <material name="pla_orange" rgba="1.0 0.6 0.1 1"/>\<newline>'',
      ''    <material name="pla_gray" rgba="0.3 0.3 0.3 1"/>\<newline>'',
      ''    <material name="pla_blue" rgba="0.2 0.4 0.8 1"/>\<newline>'',
      ''    <mesh name="Motor" file="'' @ mesh_motor l @ ''"/>\<newline>'',
      ''    <mesh name="Horn" file="'' @ mesh_horn l @ ''"/>\<newline>'',
      ''    <mesh name="Joint_1" file="'' @ mesh_joint1 l @ ''"/>\<newline>'',
      ''    <mesh name="Joint_2" file="'' @ mesh_joint2 l @ ''"/>\<newline>'',
      ''  </asset>\<newline>'',
      ''  \<newline>'',
      ''  <worldbody>\<newline>'',
      ''    <geom name="ground" type="plane" size="1 1 0.1" pos="0 0 0" material="grid_mat"/>\<newline>'',
      ''    <light name="light" pos="0.3 0.3 0.5" dir="-0.3 -0.3 -0.5"/>\<newline>'',
      ''    \<newline>'',
      ''    <!-- Motor (base) -->\<newline>'',
      ''    <body name="motor" pos="'' @ fmt_pos (motor_pos l) @ ''" quat="'' @ fmt_quat (motor_quat l) @ ''">\<newline>'',
      ''      <inertial pos="0 0 0" mass="0.055" diaginertia="0.00001 0.00001 0.00001"/>\<newline>'',
      ''      <geom type="mesh" mesh="Motor" material="pla_gray"/>\<newline>'',
      ''      \<newline>'',
      ''      <!-- Joint #2 (fixed to motor) -->\<newline>'',
      ''      <body name="joint_2" pos="'' @ fmt_pos (j2_rel l) @ ''">\<newline>'',
      ''        <inertial pos="0 0 0" mass="0.01" diaginertia="0.000001 0.000001 0.000001"/>\<newline>'',
      ''        <geom type="mesh" mesh="Joint_2" material="pla_orange" \<newline>'',
      ''              quat="'' @ fmt_quat (j2_quat l) @ ''"/>\<newline>'',
      ''      </body>\<newline>'',
      ''      \<newline>'',
      ''      <!-- Horn (rotates on motor via servo) -->\<newline>'',
      ''      <body name="horn" pos="'' @ fmt_pos (horn_rel l) @ ''">\<newline>'',
      ''        <inertial pos="0 0 0" mass="0.003" diaginertia="0.000001 0.000001 0.000001"/>\<newline>'',
      ''        <joint name="servo_rotation" type="hinge" axis="0 -1 0" range="-1.5708 1.5708" damping="0.01"/>\<newline>'',
      ''        <geom type="mesh" mesh="Horn" material="pla_blue"\<newline>'',
      ''              quat="'' @ fmt_quat (horn_quat l) @ ''"/>\<newline>'',
      ''        \<newline>'',
      ''        <!-- Joint #1 (attached to horn) -->\<newline>'',
      ''        <body name="joint_1" pos="'' @ fmt_pos (j1_rel l) @ ''">\<newline>'',
      ''          <inertial pos="0 0 0" mass="0.01" diaginertia="0.000001 0.000001 0.000001"/>\<newline>'',
      ''          <geom type="mesh" mesh="Joint_1" material="pla_orange"\<newline>'',
      ''                quat="'' @ fmt_quat (j1_quat l) @ ''"/>\<newline>'',
      ''        </body>\<newline>'',
      ''      </body>\<newline>'',
      ''    </body>\<newline>'',
      ''  </worldbody>\<newline>'',
      ''  \<newline>'',
      ''  <actuator>\<newline>'',
      ''    <motor name="servo" joint="servo_rotation" gear="100" ctrllimited="true" ctrlrange="-1 1"/>\<newline>'',
      ''  </actuator>\<newline>'',
      ''</mujoco>\<newline>''
     ]\<close>

definition mjcf :: "locals \<Rightarrow> string" where
  "mjcf l = concat (mjcf_lines l)"

text \<open>
  \<open>main\<close>, lines 43 to 197: the steps above in the order of the script. The result is the
  first exception, or the text written to the output file, which is opened only after the
  text is complete.
\<close>

definition main_locals :: "rotation_lib \<Rightarrow> root_assembly \<Rightarrow> mesh_entry list \<Rightarrow> pyerr + locals" where
  "main_locals lib asm meshes =
     (let insts = instances_dict (instances asm) in
      and_then (occurrences_dict (occurrences asm) []) (\<lambda>occs.
      and_then (find_fixed (occurrences asm)) (\<lambda>fixed_id.
      and_then (base_reference lib insts occs (default_to_motor fixed_id insts)) (\<lambda>_.
      and_then (print_positions lib insts occs) (\<lambda>_.
      and_then (cylindrical_mates insts (features asm) None) (\<lambda>_.
        compute_locals lib occs (mesh_map meshes) (scan_names insts no_ids)))))))"

definition main :: "rotation_lib \<Rightarrow> root_assembly \<Rightarrow> mesh_entry list \<Rightarrow> pyerr + string" where
  "main lib asm meshes = and_then (main_locals lib asm meshes) (\<lambda>l. Inr (mjcf l))"

section \<open>The mate analysis\<close>







section \<open>Names used in the statements\<close>

text \<open>The ids that the scan by name (lines 98 to 112) assigns for an assembly.\<close>

definition named_parts :: "root_assembly \<Rightarrow> part_ids" where
  "named_parts asm = scan_names (instances_dict (instances asm)) no_ids"

text \<open>
  The determinant of the rotation block, for the condition that section 4.1 of the
  specification puts on a transform. The converter does not compute it.
\<close>

definition det3 :: "mat3 \<Rightarrow> real" where
  "det3 m =
     (case m of ((a, b, c), (d, e, f), (g, h, i)) \<Rightarrow>
        a * (e * i - f * h) - b * (d * i - f * g) + c * (d * h - e * g))"

text \<open>
  What "fixed 6-decimal precision" means for a field: every number of the field, the numbers
  separated by single spaces, is an optional minus sign, at least one digit, a point and
  exactly six digits.
\<close>

definition is_digit :: "char \<Rightarrow> bool" where
  "is_digit c = (c \<in> set ''0123456789'')"




text \<open>
  A mate record without its limit parameters: two feature lists that agree after this differ
  in the limit parameters only.
\<close>

definition without_limits :: "feature \<Rightarrow> feature" where
  "without_limits f = f\<lparr>featureData := (featureData f)\<lparr>limits := []\<rparr>\<rparr>"

text \<open>
  The mesh file names of a manifest hold no \<open><\<close>, so that a name cannot open an element
  of the output. The names that the exporter writes are made of letters, digits, \<open>-\<close>,
  \<open>_\<close> and the part id.
\<close>

definition plain_names :: "mesh_entry list \<Rightarrow> bool" where
  "plain_names ms = list_all (\<lambda>m. CHR ''<'' \<notin> set (filename m)) ms"



section \<open>Example inputs\<close>

text \<open>
  A transform with the identity rotation and a given translation, in the layout the
  converter reads (translation at the offsets 3, 7 and 11).
\<close>

definition pose_at :: "real \<Rightarrow> real \<Rightarrow> real \<Rightarrow> real list" where
  "pose_at x y z = [1, 0, 0, x, 0, 1, 0, y, 0, 0, 1, z, 0, 0, 0, 1]"


text \<open>
  A proper rotation about the first axis by the angle whose cosine is \<open>-7/25\<close> and whose
  sine is \<open>-24/25\<close>, at the origin.
\<close>

definition turned_pose :: "real list" where
  "turned_pose = [1, 0, 0, 0, 0, - 7 / 25, - 24 / 25, 0, 0, 24 / 25, - 7 / 25, 0, 0, 0, 0, 1]"

text \<open>
  The assembly of four occurrences of section 8 of the specification: the motor at the
  origin, the horn at (0.1, 0, 0), one static part on each, and one mate between horn and
  motor whose connector axis is (0, 1, 0).
\<close>

definition demo_instances :: "inst list" where
  "demo_instances =
     [\<lparr>inst_id = ''M'', inst_name = ''Motor''\<rparr>,
      \<lparr>inst_id = ''H'', inst_name = ''Horn''\<rparr>,
      \<lparr>inst_id = ''A'', inst_name = ''Joint #1''\<rparr>,
      \<lparr>inst_id = ''B'', inst_name = ''Joint #2''\<rparr>]"

definition demo_occurrences :: "occurrence list" where
  "demo_occurrences =
     [\<lparr>path = [''M''], transform = pose_at 0 0 0, fixed = Some True\<rparr>,
      \<lparr>path = [''H''], transform = pose_at (1 / 10) 0 0, fixed = None\<rparr>,
      \<lparr>path = [''A''], transform = pose_at (1 / 10) 0 (1 / 20), fixed = None\<rparr>,
      \<lparr>path = [''B''], transform = pose_at 0 (1 / 50) 0, fixed = None\<rparr>]"

definition demo_mate :: "string \<Rightarrow> feature" where
  "demo_mate ty =
     \<lparr>featureData =
        \<lparr>mateType = ty,
         matedEntities =
           [\<lparr>matedOccurrence = [''H''],
             matedCS = \<lparr>zAxis = [0, 1, 0], origin = [0, 0, 0]\<rparr>\<rparr>,
            \<lparr>matedOccurrence = [''M''],
             matedCS = \<lparr>zAxis = [0, 1, 0], origin = [1 / 10, 0, 0]\<rparr>\<rparr>],
         limits = [(''limitAxialZMin'', - 1), (''limitAxialZMax'', 1)]\<rparr>\<rparr>"

definition demo_assembly :: root_assembly where
  "demo_assembly =
     \<lparr>instances = demo_instances, occurrences = demo_occurrences,
      features = [demo_mate ''CYLINDRICAL'']\<rparr>"

definition demo_meshes :: "mesh_entry list" where
  "demo_meshes =
     [\<lparr>instanceId = ''M'', filename = ''Motor_JHD.stl''\<rparr>,
      \<lparr>instanceId = ''H'', filename = ''Horn_JLD.stl''\<rparr>,
      \<lparr>instanceId = ''A'', filename = ''Joint__1_JPD.stl''\<rparr>,
      \<lparr>instanceId = ''B'', filename = ''Joint__2_JTD.stl''\<rparr>]"

text \<open>The values the converter interpolates for this assembly.\<close>

definition demo_locals :: locals where
  "demo_locals =
     \<lparr>mesh_motor = ''Motor_JHD.stl'', mesh_horn = ''Horn_JLD.stl'',
      mesh_joint1 = ''Joint__1_JPD.stl'', mesh_joint2 = ''Joint__2_JTD.stl'',
      motor_pos = (0, 0, 0), motor_quat = (1, 0, 0, 0),
      j2_rel = (0, 1 / 50, 0), j2_quat = (1, 0, 0, 0),
      horn_rel = (1 / 10, 0, 0), horn_quat = (1, 0, 0, 0),
      j1_rel = (0, 0, 1 / 20), j1_quat = (1, 0, 0, 0)\<rparr>"






text \<open>The same assembly with other values of the mate's limit parameters.\<close>

definition relimited_assembly :: root_assembly where
  "relimited_assembly =
     demo_assembly\<lparr>features :=
       [\<lparr>featureData = (featureData (demo_mate ''CYLINDRICAL''))
           \<lparr>limits := [(''limitAxialZMin'', - 3), (''limitAxialZMax'', 3)]\<rparr>\<rparr>]\<rparr>"

text \<open>The manifest of the example without the entry of the horn.\<close>

definition meshes_without_horn :: "mesh_entry list" where
  "meshes_without_horn =
     [\<lparr>instanceId = ''M'', filename = ''Motor_JHD.stl''\<rparr>,
      \<lparr>instanceId = ''A'', filename = ''Joint__1_JPD.stl''\<rparr>,
      \<lparr>instanceId = ''B'', filename = ''Joint__2_JTD.stl''\<rparr>]"






section \<open>Auxiliary facts\<close>

subsection \<open>Sequencing\<close>

lemma and_then_simps [simp]:
  "and_then (Inl e) f = Inl e" "and_then (Inr v) f = f v"
  by (simp_all add: and_then_def)

lemma and_then_eq_Inr: "and_then r f = Inr y \<longleftrightarrow> (\<exists>v. r = Inr v \<and> f v = Inr y)"
  by (cases r) simp_all


subsection \<open>Counting in a text made of lines\<close>

lemma starts_with_append:
  "c \<in> set a \<Longrightarrow> c \<notin> set n \<Longrightarrow> starts_with n (a @ b) = starts_with n a"
proof (induction n a rule: starts_with.induct)
  case (1 s)
  then show ?case by simp
next
  case (2 a as)
  then show ?case by simp
next
  case (3 a as c' cs)
  then show ?case by auto
qed

lemma count_str_append:
  "a \<noteq> [] \<Longrightarrow> last a \<notin> set n \<Longrightarrow> count_str n (a @ b) = count_str n a + count_str n b"
proof (induction a)
  case Nil
  then show ?case by simp
next
  case (Cons x xs)
  have sw: "starts_with n ((x # xs) @ b) = starts_with n (x # xs)"
    using Cons.prems starts_with_append [of "last (x # xs)" "x # xs" n b] by simp
  show ?case
  proof (cases "xs = []")
    case True
    with Cons.prems sw show ?thesis
      by (cases n) auto
  next
    case False
    with Cons have "count_str n (xs @ b) = count_str n xs + count_str n b" by simp
    with sw show ?thesis by simp
  qed
qed

lemma count_str_concat:
  "(\<And>a. a \<in> set chunks \<Longrightarrow> a \<noteq> [] \<and> last a \<notin> set n) \<Longrightarrow>
   count_str n (concat chunks) = sum_list (map (count_str n) chunks)"
  by (induction chunks) (simp_all add: count_str_append)

lemma count_str_lines:
  "list_all (\<lambda>a. a \<noteq> [] \<and> last a = CHR 0x0A) chunks \<Longrightarrow> CHR 0x0A \<notin> set n \<Longrightarrow>
   count_str n (concat chunks) = sum_list (map (count_str n) chunks)"
  by (rule count_str_concat) (auto simp: list_all_iff)

lemma mjcf_lines_end: "list_all (\<lambda>a. a \<noteq> [] \<and> last a = CHR 0x0A) (mjcf_lines l)"
  by (simp add: mjcf_lines_def)

lemma count_str_mjcf:
  "CHR 0x0A \<notin> set n \<Longrightarrow> count_str n (mjcf l) = sum_list (map (count_str n) (mjcf_lines l))"
  unfolding mjcf_def by (rule count_str_lines [OF mjcf_lines_end])

lemma count_skip:
  "CHR ''<'' \<notin> set h \<Longrightarrow> count_str (CHR ''<'' # n) (h @ r) = count_str (CHR ''<'' # n) r"
  by (induction h) auto

subsection \<open>Number formatting\<close>

lemma digits_small: "n < 10 \<Longrightarrow> digits n = [digit_char n]"
  by (subst digits.simps) simp

lemma digits_big: "10 \<le> n \<Longrightarrow> digits n = digits (n div 10) @ [digit_char (n mod 10)]"
  by (subst digits.simps) simp



lemma is_digit_digit_char: "d < 10 \<Longrightarrow> is_digit (digit_char d)"
  unfolding is_digit_def digit_char_def by (rule nth_mem) simp

lemma digits_all: "list_all is_digit (digits n)"
proof (induction n rule: digits.induct)
  case (1 n)
  show ?case
  proof (cases "n < 10")
    case True
    then show ?thesis by (simp add: digits_small is_digit_digit_char)
  next
    case False
    with 1 show ?thesis by (simp add: digits_big is_digit_digit_char)
  qed
qed

lemma digits_nonempty: "digits n \<noteq> []"
  by (subst digits.simps) simp

lemma length_digits: "0 < k \<Longrightarrow> n < 10 ^ k \<Longrightarrow> length (digits n) \<le> k"
proof (induction k arbitrary: n)
  case 0
  then show ?case by simp
next
  case (Suc k)
  show ?case
  proof (cases "n < 10")
    case True
    then show ?thesis by (simp add: digits_small)
  next
    case False
    then have k: "0 < k" using Suc.prems by (cases k) auto
    from Suc.prems have "n div 10 < 10 ^ k" by (simp add: less_mult_imp_div_less mult.commute)
    from Suc.IH [OF k this] False show ?thesis by (simp add: digits_big)
  qed
qed

lemma fmt6_shape:
  "\<exists>sg ip fr. fmt6 x = sg @ ip @ ''.'' @ fr \<and> (sg = [] \<or> sg = ''-'') \<and> ip \<noteq> []
     \<and> list_all is_digit ip \<and> length fr = 6 \<and> list_all is_digit fr"
proof -
  define n where "n = nat (round_half_even (\<bar>x\<bar> * 1000000))"
  define fr where "fr = replicate (6 - length (digits (n mod 1000000))) (CHR ''0'') @ digits (n mod 1000000)"
  have "length (digits (n mod 1000000)) \<le> 6"
    using length_digits [of 6 "n mod 1000000"] by simp
  then have len: "length fr = 6" by (simp add: fr_def)
  have z: "is_digit (CHR ''0'')" by (simp add: is_digit_def)
  have all: "list_all is_digit fr"
    using digits_all [of "n mod 1000000"] z by (auto simp: fr_def list_all_iff)
  have "fmt6 x = (if x < 0 then ''-'' else '''') @ digits (n div 1000000) @ ''.'' @ fr"
    by (simp add: fmt6_def Let_def n_def fr_def)
  with len all digits_all [of "n div 1000000"] digits_nonempty [of "n div 1000000"]
  show ?thesis by (intro exI [of _ "if x < 0 then ''-'' else ''''"] exI [of _ "digits (n div 1000000)"] exI [of _ fr]) simp
qed



lemma fmt6_no_char:
  assumes "\<not> is_digit c" "c \<noteq> CHR ''-''" "c \<noteq> CHR ''.''"
  shows "c \<notin> set (fmt6 x)"
proof -
  from fmt6_shape [of x] obtain sg ip fr where f: "fmt6 x = sg @ ip @ ''.'' @ fr"
    and sg: "sg = [] \<or> sg = ''-''" and ip: "list_all is_digit ip" and fr: "list_all is_digit fr"
    by blast
  have "c \<notin> set ip" "c \<notin> set fr"
    using ip fr assms(1) by (auto simp: list_all_iff)
  moreover have "c \<notin> set sg" using sg assms(2) by auto
  ultimately show ?thesis unfolding f using assms(3) by simp
qed

lemma fmt6_no_lt: "CHR ''<'' \<notin> set (fmt6 x)"
  by (rule fmt6_no_char) (simp_all add: is_digit_def)


lemma fmt_pos_no_lt [simp]: "CHR ''<'' \<notin> set (fmt_pos p)"
  by (cases p) (simp add: fmt6_no_lt)

lemma fmt_quat_no_lt [simp]: "CHR ''<'' \<notin> set (fmt_quat q)"
  by (cases q) (simp add: fmt6_no_lt)






subsection \<open>The transform extractor\<close>


lemma extractor_Inr:
  "transform_to_pos_quat lib t = Inr (p, (q0, q1, q2, q3)) \<longleftrightarrow>
     12 \<le> length t \<and> lib (rotation_block t) = Inr (q1, q2, q3, q0) \<and> p = world_position t"
  by (auto simp: transform_to_pos_quat_def and_then_eq_Inr split: prod.splits)

lemma argmax4_cases:
  "argmax4 d0 d1 d2 d3 = 0 \<and> d1 \<le> d0 \<and> d2 \<le> d0 \<and> d3 \<le> d0
   \<or> argmax4 d0 d1 d2 d3 = 1 \<and> d0 < d1 \<and> d2 \<le> d1 \<and> d3 \<le> d1
   \<or> argmax4 d0 d1 d2 d3 = 2 \<and> d0 < d2 \<and> d1 < d2 \<and> d3 \<le> d2
   \<or> argmax4 d0 d1 d2 d3 = 3 \<and> d0 < d3 \<and> d1 < d3 \<and> d2 < d3"
  by (auto simp: argmax4_def)

text \<open>The component that the largest term selects is at least 1, so the norm is never zero.\<close>

lemma raw_quat_norm:
  assumes "raw_quat m = (x, y, z, w)"
  shows "1 \<le> x * x + y * y + z * z + w * w"
proof -
  obtain m00 m01 m02 m10 m11 m12 m20 m21 m22
    where m: "m = ((m00, m01, m02), (m10, m11, m12), (m20, m21, m22))"
    by (metis prod_cases3)
  define tr where "tr = m00 + m11 + m22"
  have sq: "1 \<le> a \<Longrightarrow> 1 \<le> a * a" for a :: real
    by (metis mult_le_one mult_1 mult_mono zero_le_one order_trans linear mult_left_mono)
  have nn: "0 \<le> a * a" for a :: real by simp
  from argmax4_cases [of m00 m11 m22 tr]
  consider (c0) "argmax4 m00 m11 m22 tr = 0" "m11 \<le> m00" "m22 \<le> m00" "tr \<le> m00"
    | (c1) "argmax4 m00 m11 m22 tr = 1" "m00 < m11" "m22 \<le> m11" "tr \<le> m11"
    | (c2) "argmax4 m00 m11 m22 tr = 2" "m00 < m22" "m11 < m22" "tr \<le> m22"
    | (c3) "argmax4 m00 m11 m22 tr = 3" "m00 < tr" "m11 < tr" "m22 < tr"
    by fastforce
  then show ?thesis
  proof cases
    case c0
    with assms m have "x = 1 - tr + 2 * m00" by (simp add: raw_quat_def tr_def Let_def)
    with c0 have "1 \<le> x" unfolding tr_def by linarith
    from sq [OF this] nn [of y] nn [of z] nn [of w] show ?thesis by linarith
  next
    case c1
    with assms m have "y = 1 - tr + 2 * m11" by (simp add: raw_quat_def tr_def Let_def)
    with c1 have "1 \<le> y" unfolding tr_def by linarith
    from sq [OF this] nn [of x] nn [of z] nn [of w] show ?thesis by linarith
  next
    case c2
    with assms m have "z = 1 - tr + 2 * m22" by (simp add: raw_quat_def tr_def Let_def)
    with c2 have "1 \<le> z" unfolding tr_def by linarith
    from sq [OF this] nn [of y] nn [of x] nn [of w] show ?thesis by linarith
  next
    case c3
    with assms m have "w = 1 + tr" by (simp add: raw_quat_def tr_def Let_def)
    with c3 have "1 \<le> w" unfolding tr_def by linarith
    from sq [OF this] nn [of y] nn [of z] nn [of x] show ?thesis by linarith
  qed
qed

lemma normalize4_unit:
  assumes "1 \<le> x * x + y * y + z * z + w * w"
    and "normalize4 (x, y, z, w) = (a, b, c, d)"
  shows "a * a + b * b + c * c + d * d = 1 \<and> (0 \<le> d) = (0 \<le> w)"
proof -
  define s where "s = x * x + y * y + z * z + w * w"
  define n where "n = sqrt s"
  have s: "1 \<le> s" using assms(1) by (simp add: s_def)
  then have n: "0 < n" and nn: "n * n = s" by (simp_all add: n_def)
  from assms(2) n have abcd: "a = x / n" "b = y / n" "c = z / n" "d = w / n"
    by (simp_all add: normalize4_def n_def s_def Let_def)
  have "a * a + b * b + c * c + d * d = s / (n * n)"
    by (simp add: abcd s_def add_divide_distrib)
  with nn s have "a * a + b * b + c * c + d * d = 1" by simp
  moreover have "(0 \<le> d) = (0 \<le> w)" using n by (simp add: abcd zero_le_divide_iff)
  ultimately show ?thesis by simp
qed

lemma sqrt_256_25: "sqrt (256 / 25) = 16 / 5"
  by (simp add: real_sqrt_divide)

lemmas extractor_eval = transform_to_pos_quat_def rotation_block_def world_position_def
  from_matrix_as_quat_def raw_quat_def argmax4_def normalize4_def Let_def

lemma pose_at_quat:
  "transform_to_pos_quat from_matrix_as_quat (pose_at x y z) = Inr ((x, y, z), (1, 0, 0, 0))"
  by (simp add: extractor_eval pose_at_def)

lemma turned_pose_quat:
  "transform_to_pos_quat from_matrix_as_quat turned_pose = Inr ((0, 0, 0), (- 3 / 5, 4 / 5, 0, 0))"
  by (simp add: extractor_eval turned_pose_def sqrt_256_25)



subsection \<open>The steps of the converter\<close>

lemmas run_defs = main_locals_def instances_dict_def mesh_map_def
  default_to_motor_def base_reference_def dict_get_id_def dict_get_def lower_def lower_char_def
  index0_def index1_def no_ids_def compute_locals_def part_pose_def demo_instances_def
  demo_occurrences_def demo_mate_def demo_meshes_def

lemma demo_main_locals:
  "main_locals from_matrix_as_quat demo_assembly demo_meshes = Inr demo_locals"
  by (simp add: run_defs demo_assembly_def demo_locals_def pose_at_quat)


lemma main_Inr:
  "main lib asm ms = Inr out \<longleftrightarrow> (\<exists>l. main_locals lib asm ms = Inr l \<and> out = mjcf l)"
  by (auto simp: main_def and_then_eq_Inr)

lemma main_locals_Inr:
  assumes "main_locals lib asm ms = Inr l"
  shows "\<exists>occs fid.
     occurrences_dict (occurrences asm) [] = Inr occs \<and>
     find_fixed (occurrences asm) = Inr fid \<and>
     (\<exists>b. base_reference lib (instances_dict (instances asm)) occs
            (default_to_motor fid (instances_dict (instances asm))) = Inr b) \<and>
     print_positions lib (instances_dict (instances asm)) occs = Inr () \<and>
     (\<exists>a. cylindrical_mates (instances_dict (instances asm)) (features asm) None = Inr a) \<and>
     compute_locals lib occs (mesh_map ms) (named_parts asm) = Inr l"
  using assms by (auto simp: main_locals_def Let_def and_then_eq_Inr named_parts_def)


lemma compute_locals_Inr:
  assumes "compute_locals lib occs meshes ids = Inr l"
  shows "\<exists>mp mq hp hq p1 q1 p2 q2 fm fh f1 f2.
     part_pose lib occs (motor_id ids) = Inr (mp, mq) \<and>
     part_pose lib occs (horn_id ids) = Inr (hp, hq) \<and>
     part_pose lib occs (joint1_id ids) = Inr (p1, q1) \<and>
     part_pose lib occs (joint2_id ids) = Inr (p2, q2) \<and>
     dict_get_id meshes (motor_id ids) = Inr fm \<and>
     dict_get_id meshes (horn_id ids) = Inr fh \<and>
     dict_get_id meshes (joint1_id ids) = Inr f1 \<and>
     dict_get_id meshes (joint2_id ids) = Inr f2 \<and>
     l = \<lparr>mesh_motor = fm, mesh_horn = fh, mesh_joint1 = f1, mesh_joint2 = f2,
          motor_pos = mp, motor_quat = mq, j2_rel = vsub p2 mp, j2_quat = q2,
          horn_rel = vsub hp mp, horn_quat = hq, j1_rel = vsub p1 hp, j1_quat = q1\<rparr>"
  using assms by (auto simp: compute_locals_def and_then_eq_Inr split: prod.splits)




subsection \<open>The template\<close>

lemma starts_with_append_right: "starts_with n a \<Longrightarrow> starts_with n (a @ s)"
  by (induction n a rule: starts_with.induct) auto

lemma str_in_Nil: "str_in [] s"
  by (cases s) auto

lemma str_in_append_right: "str_in n a \<Longrightarrow> str_in n (a @ s)"
proof (induction a)
  case Nil
  then show ?case by (simp add: str_in_Nil)
next
  case (Cons c a)
  then show ?case using starts_with_append_right [of n "c # a" s] by auto
qed

lemma str_in_append_left: "str_in n s \<Longrightarrow> str_in n (p @ s)"
  by (induction p) auto

lemma str_in_concat: "a \<in> set chunks \<Longrightarrow> str_in n a \<Longrightarrow> str_in n (concat chunks)"
proof (induction chunks)
  case Nil
  then show ?case by simp
next
  case (Cons c chunks)
  then show ?case by (auto intro: str_in_append_left str_in_append_right)
qed

subsection \<open>The manifest and the file names\<close>

lemma map_of_dict_set: "map_of (dict_set d k v) = (map_of d)(k \<mapsto> v)"
  by (induction d k v rule: dict_set.induct) auto

lemma map_of_mesh_fold:
  "map_of (foldl (\<lambda>d m. dict_set d (instanceId m) (filename m)) d0 ms) k = Some f \<Longrightarrow>
     map_of d0 k = Some f \<or> (\<exists>m \<in> set ms. instanceId m = k \<and> filename m = f)"
proof (induction ms arbitrary: d0)
  case Nil
  then show ?case by simp
next
  case (Cons m ms)
  from Cons.IH [OF Cons.prems [simplified]] show ?case
    by (auto simp: map_of_dict_set split: if_splits)
qed

lemma mesh_map_Some:
  "dict_get_id (mesh_map ms) i = Inr f \<Longrightarrow> \<exists>m \<in> set ms. Some (instanceId m) = i \<and> filename m = f"
  using map_of_mesh_fold [of "[]" ms _ f]
  by (auto simp: dict_get_id_def dict_get_def mesh_map_def split: option.splits)

lemma main_locals_files:
  assumes "main_locals lib asm ms = Inr l" "plain_names ms"
  shows "CHR ''<'' \<notin> set (mesh_motor l)" "CHR ''<'' \<notin> set (mesh_horn l)"
    "CHR ''<'' \<notin> set (mesh_joint1 l)" "CHR ''<'' \<notin> set (mesh_joint2 l)"
proof -
  from main_locals_Inr [OF assms(1)] obtain occs
    where "compute_locals lib occs (mesh_map ms) (named_parts asm) = Inr l" by blast
  from compute_locals_Inr [OF this] obtain fm fh f1 f2
    where f: "dict_get_id (mesh_map ms) (motor_id (named_parts asm)) = Inr fm"
      "dict_get_id (mesh_map ms) (horn_id (named_parts asm)) = Inr fh"
      "dict_get_id (mesh_map ms) (joint1_id (named_parts asm)) = Inr f1"
      "dict_get_id (mesh_map ms) (joint2_id (named_parts asm)) = Inr f2"
      and l: "mesh_motor l = fm" "mesh_horn l = fh" "mesh_joint1 l = f1" "mesh_joint2 l = f2"
    by force
  from f [THEN mesh_map_Some] assms(2)
  show "CHR ''<'' \<notin> set (mesh_motor l)" "CHR ''<'' \<notin> set (mesh_horn l)"
    "CHR ''<'' \<notin> set (mesh_joint1 l)" "CHR ''<'' \<notin> set (mesh_joint2 l)"
    unfolding l plain_names_def list_all_iff by blast+
qed

subsection \<open>Elements of the output\<close>

lemma mjcf_count_joint:
  assumes "CHR ''<'' \<notin> set (mesh_motor l)" "CHR ''<'' \<notin> set (mesh_horn l)"
    "CHR ''<'' \<notin> set (mesh_joint1 l)" "CHR ''<'' \<notin> set (mesh_joint2 l)"
  shows "count_str ''<joint'' (mjcf l) = 1"
  by (simp add: count_str_mjcf mjcf_lines_def count_skip assms)





lemma mjcf_joint_line:
  \<open>str_in ''<joint name="servo_rotation" type="hinge" axis="0 -1 0" range="-1.5708 1.5708" damping="0.01"/>'' (mjcf l)\<close>
  unfolding mjcf_def
  by (rule str_in_concat [of \<open>''        <joint name="servo_rotation" type="hinge" axis="0 -1 0" range="-1.5708 1.5708" damping="0.01"/>\<newline>''\<close>])
     (simp_all add: mjcf_lines_def)

lemma demo_main: "main from_matrix_as_quat demo_assembly demo_meshes = Inr (mjcf demo_locals)"
  by (simp add: main_def demo_main_locals)

lemma demo_plain: "plain_names demo_meshes"
  by (simp add: plain_names_def demo_meshes_def)

lemma main_counts:
  assumes "main lib asm ms = Inr out" "plain_names ms"
  shows "\<exists>l. out = mjcf l \<and> CHR ''<'' \<notin> set (mesh_motor l) \<and> CHR ''<'' \<notin> set (mesh_horn l)
     \<and> CHR ''<'' \<notin> set (mesh_joint1 l) \<and> CHR ''<'' \<notin> set (mesh_joint2 l)"
proof -
  from assms(1) obtain l where l: "main_locals lib asm ms = Inr l" "out = mjcf l"
    by (auto simp: main_Inr)
  from main_locals_files [OF l(1) assms(2)] l(2) show ?thesis by blast
qed

subsection \<open>The mates and the result\<close>


lemma without_limits_eq:
  "without_limits f = without_limits g \<Longrightarrow>
     mateType (featureData f) = mateType (featureData g)
     \<and> matedEntities (featureData f) = matedEntities (featureData g)"
proof -
  assume a: "without_limits f = without_limits g"
  have "mateType (featureData (without_limits f)) = mateType (featureData f)"
    "matedEntities (featureData (without_limits f)) = matedEntities (featureData f)"
    "mateType (featureData (without_limits g)) = mateType (featureData g)"
    "matedEntities (featureData (without_limits g)) = matedEntities (featureData g)"
    by (simp_all add: without_limits_def)
  with a show ?thesis by metis
qed

lemma cylindrical_mates_limits:
  "map without_limits fs = map without_limits gs \<Longrightarrow>
     cylindrical_mates insts fs seen = cylindrical_mates insts gs seen"
proof (induction fs arbitrary: gs seen)
  case Nil
  then show ?case by simp
next
  case (Cons f fs)
  then obtain g gs' where g: "gs = g # gs'" "without_limits f = without_limits g"
    "map without_limits fs = map without_limits gs'"
    by (cases gs) auto
  from without_limits_eq [OF g(2)] Cons.IH [OF g(3)] show ?case
    by (simp add: g(1) Let_def)
qed

lemma main_limits:
  assumes "instances a = instances b" "occurrences a = occurrences b"
    "map without_limits (features a) = map without_limits (features b)"
  shows "main lib a ms = main lib b ms"
  using assms cylindrical_mates_limits [OF assms(3)]
  by (simp add: main_def main_locals_def)




subsection \<open>Missing entries of the manifest\<close>

lemma dict_get_id_cases: "dict_get_id d i = Inl KeyError \<or> (\<exists>v. dict_get_id d i = Inr v)"
  by (auto simp: dict_get_id_def dict_get_def split: option.splits)

lemma mesh_map_None:
  assumes "\<forall>m \<in> set ms. Some (instanceId m) \<noteq> i"
  shows "dict_get_id (mesh_map ms) i = Inl KeyError"
proof -
  from dict_get_id_cases [of "mesh_map ms" i] show ?thesis
  proof
    assume "\<exists>v. dict_get_id (mesh_map ms) i = Inr v"
    then obtain v where "dict_get_id (mesh_map ms) i = Inr v" by blast
    from mesh_map_Some [OF this] assms show ?thesis by blast
  qed simp
qed

lemma main_locals_reduce:
  assumes "main_locals lib asm ms' = Inr l'"
  shows "\<exists>occs. main_locals lib asm ms = compute_locals lib occs (mesh_map ms) (named_parts asm)
     \<and> compute_locals lib occs (mesh_map ms') (named_parts asm) = Inr l'"
proof -
  from main_locals_Inr [OF assms] obtain occs fid b a
    where "occurrences_dict (occurrences asm) [] = Inr occs"
      "find_fixed (occurrences asm) = Inr fid"
      "base_reference lib (instances_dict (instances asm)) occs
            (default_to_motor fid (instances_dict (instances asm))) = Inr b"
      "print_positions lib (instances_dict (instances asm)) occs = Inr ()"
      "cylindrical_mates (instances_dict (instances asm)) (features asm) None = Inr a"
      "compute_locals lib occs (mesh_map ms') (named_parts asm) = Inr l'"
    by blast
  then show ?thesis
    by (intro exI [of _ occs]) (simp add: main_locals_def named_parts_def)
qed

lemma compute_locals_missing:
  assumes "compute_locals lib occs meshes' ids = Inr l'"
    and "i \<in> {motor_id ids, horn_id ids, joint1_id ids, joint2_id ids}"
    and "dict_get_id meshes i = Inl KeyError"
  shows "compute_locals lib occs meshes ids = Inl KeyError"
proof -
  from compute_locals_Inr [OF assms(1)] obtain mp mq hp hq p1 q1 p2 q2
    where p: "part_pose lib occs (motor_id ids) = Inr (mp, mq)"
      "part_pose lib occs (horn_id ids) = Inr (hp, hq)"
      "part_pose lib occs (joint1_id ids) = Inr (p1, q1)"
      "part_pose lib occs (joint2_id ids) = Inr (p2, q2)"
    by blast
  from assms(2,3)
    dict_get_id_cases [of meshes "motor_id ids"] dict_get_id_cases [of meshes "horn_id ids"]
    dict_get_id_cases [of meshes "joint1_id ids"] dict_get_id_cases [of meshes "joint2_id ids"]
  show ?thesis
    by (auto simp: compute_locals_def p)
qed

lemma demo_named_parts:
  "named_parts demo_assembly =
     \<lparr>motor_id = Some ''M'', horn_id = Some ''H'', joint1_id = Some ''A'', joint2_id = Some ''B''\<rparr>"
  by (simp add: named_parts_def demo_assembly_def run_defs)

subsection \<open>Mates of other types\<close>






subsection \<open>The base\<close>








section \<open>The claims\<close>

subsection \<open>C1: local positions\<close>



subsection \<open>C2: the joint axis\<close>




subsection \<open>C3: one joint, one actuator\<close>



subsection \<open>C4: the quaternion\<close>

text \<open>
  C4, as the code has it. The extractor returns the library's quaternion reordered from
  (x, y, z, w) to (w, x, y, z), for every transform of at least twelve values. With the
  conversion that the specification describes, the result has unit norm, and its scalar
  part has the sign of the unnormalised scalar term: nothing makes it non-negative.
\<close>

theorem quaternion_order_and_norm:
  "(transform_to_pos_quat lib t = Inr (p, (q0, q1, q2, q3)) \<longleftrightarrow>
      12 \<le> length t \<and> lib (rotation_block t) = Inr (q1, q2, q3, q0) \<and> p = world_position t)
   \<and> (transform_to_pos_quat from_matrix_as_quat t = Inr (p, (q0, q1, q2, q3)) \<longrightarrow>
        q0 * q0 + q1 * q1 + q2 * q2 + q3 * q3 = 1
        \<and> (0 \<le> q0) = (0 \<le> snd (snd (snd (raw_quat (rotation_block t))))))"
proof (intro conjI impI)
  show "transform_to_pos_quat lib t = Inr (p, (q0, q1, q2, q3)) \<longleftrightarrow>
      12 \<le> length t \<and> lib (rotation_block t) = Inr (q1, q2, q3, q0) \<and> p = world_position t"
    by (rule extractor_Inr)
next
  assume a: "transform_to_pos_quat from_matrix_as_quat t = Inr (p, (q0, q1, q2, q3))"
  obtain x y z w where r: "raw_quat (rotation_block t) = (x, y, z, w)" by (metis prod_cases4)
  from a have n: "normalize4 (x, y, z, w) = (q1, q2, q3, q0)"
    by (simp add: extractor_Inr from_matrix_as_quat_def r)
  from normalize4_unit [OF raw_quat_norm [OF r] n]
  show "q0 * q0 + q1 * q1 + q2 * q2 + q3 * q3 = 1"
    and "(0 \<le> q0) = (0 \<le> snd (snd (snd (raw_quat (rotation_block t)))))"
    by (simp_all add: r)
qed

text \<open>The theorem at the turned pose: the scalar part is \<open>-3/5\<close>, as the raw term is negative.\<close>

theorem quaternion_order_witness:
  "transform_to_pos_quat from_matrix_as_quat turned_pose = Inr ((0, 0, 0), (- 3 / 5, 4 / 5, 0, 0))
   \<and> \<not> 0 \<le> snd (snd (snd (raw_quat (rotation_block turned_pose))))"
  using quaternion_order_and_norm
      [of from_matrix_as_quat turned_pose "(0, 0, 0)" "- 3 / 5" "4 / 5" 0 0]
    turned_pose_quat by simp

text \<open>
  C4 as stated fails: the turned pose is a proper rotation (determinant 1), and the
  quaternion returned for it has the negative scalar part \<open>-3/5\<close>.
\<close>

theorem negative_scalar_counterexample:
  "det3 (rotation_block turned_pose) = 1
   \<and> transform_to_pos_quat from_matrix_as_quat turned_pose
       = Inr ((0, 0, 0), (- 3 / 5, 4 / 5, 0, 0))
   \<and> (- 3 / 5 :: real) < 0"
  by (simp add: turned_pose_quat) (simp add: turned_pose_def rotation_block_def det3_def)

subsection \<open>C5: the base and the root\<close>




subsection \<open>C6: a body without geometry\<close>

text \<open>
  C6, as the code has it. The mesh file of each of the four bodies is looked up in the
  manifest while the text is built (lines 151 to 154). For an assembly that converts with
  some manifest, a manifest without the entry of one of the four bodies ends the run with
  \<open>KeyError\<close>: there is no output and no diagnostic.
\<close>

theorem missing_geometry_is_fatal:
  assumes "main lib asm ms' = Inr out'"
    and "i \<in> {motor_id (named_parts asm), horn_id (named_parts asm),
               joint1_id (named_parts asm), joint2_id (named_parts asm)}"
    and "\<forall>m \<in> set ms. Some (instanceId m) \<noteq> i"
  shows "main lib asm ms = Inl KeyError"
proof -
  from assms(1) obtain l' where "main_locals lib asm ms' = Inr l'" by (auto simp: main_Inr)
  from main_locals_reduce [OF this, of ms] obtain occs
    where r: "main_locals lib asm ms = compute_locals lib occs (mesh_map ms) (named_parts asm)"
      and c: "compute_locals lib occs (mesh_map ms') (named_parts asm) = Inr l'"
    by blast
  from compute_locals_missing [OF c assms(2) mesh_map_None [OF assms(3)]] r
  show ?thesis by (simp add: main_def)
qed

text \<open>
  The theorem at the example assembly and the empty manifest.
\<close>

theorem missing_geometry_witness:
  "main from_matrix_as_quat demo_assembly [] = Inl KeyError"
  using missing_geometry_is_fatal [OF demo_main, of "Some ''M''" "[]"]
  by (simp add: demo_named_parts)

text \<open>
  C6 as stated fails: the example assembly converts with its manifest, and with the
  manifest that lacks the entry of the horn the run ends with \<open>KeyError\<close> and no body
  is emitted.
\<close>

theorem missing_geometry_counterexample:
  "horn_id (named_parts demo_assembly) = Some ''H''
   \<and> map instanceId meshes_without_horn = [''M'', ''A'', ''B'']
   \<and> main from_matrix_as_quat demo_assembly demo_meshes = Inr (mjcf demo_locals)
   \<and> main from_matrix_as_quat demo_assembly meshes_without_horn = Inl KeyError"
  by (simp add: demo_named_parts demo_main)
     (simp add: main_def run_defs demo_assembly_def meshes_without_horn_def pose_at_quat)

subsection \<open>C7: failures of the transform extractor\<close>




subsection \<open>C8: a mate of unknown type\<close>



subsection \<open>C9: six decimals\<close>




subsection \<open>C10: range and damping\<close>

text \<open>
  C10. Two assemblies that differ only in the limit parameters of their mates give the same
  result, and an output always holds the joint element with the range
  \<open>-1.5708 1.5708\<close> and the damping \<open>0.01\<close>; it is the only joint element when
  the file names are plain.
\<close>

theorem joint_range_independent_of_limits:
  assumes "instances a = instances b" and "occurrences a = occurrences b"
    and "map without_limits (features a) = map without_limits (features b)"
  shows \<open>main lib a ms = main lib b ms
    \<and> (main lib a ms = Inr out \<longrightarrow>
         str_in ''<joint name="servo_rotation" type="hinge" axis="0 -1 0" range="-1.5708 1.5708" damping="0.01"/>'' out
         \<and> (plain_names ms \<longrightarrow> count_str ''<joint'' out = 1))\<close>
proof (intro conjI impI)
  show "main lib a ms = main lib b ms" by (rule main_limits [OF assms])
next
  assume "main lib a ms = Inr out"
  then show \<open>str_in ''<joint name="servo_rotation" type="hinge" axis="0 -1 0" range="-1.5708 1.5708" damping="0.01"/>'' out\<close>
    by (auto simp: main_Inr mjcf_joint_line)
next
  assume m: "main lib a ms = Inr out" and p: "plain_names ms"
  from main_counts [OF m p] obtain l where l: "out = mjcf l"
    and f: "CHR ''<'' \<notin> set (mesh_motor l)" "CHR ''<'' \<notin> set (mesh_horn l)"
      "CHR ''<'' \<notin> set (mesh_joint1 l)" "CHR ''<'' \<notin> set (mesh_joint2 l)"
    by blast
  show "count_str ''<joint'' out = 1" unfolding l by (rule mjcf_count_joint [OF f])
qed

text \<open>
  The theorem at the example assembly and the one with other limit values.
\<close>

theorem joint_range_witness:
  \<open>limits (featureData (hd (features demo_assembly))) \<noteq> limits (featureData (hd (features relimited_assembly)))
    \<and> main from_matrix_as_quat relimited_assembly demo_meshes = Inr (mjcf demo_locals)
    \<and> str_in ''<joint name="servo_rotation" type="hinge" axis="0 -1 0" range="-1.5708 1.5708" damping="0.01"/>'' (mjcf demo_locals)
    \<and> count_str ''<joint'' (mjcf demo_locals) = 1\<close>
proof -
  have 1: "instances demo_assembly = instances relimited_assembly"
    and 2: "occurrences demo_assembly = occurrences relimited_assembly"
    and 3: "map without_limits (features demo_assembly) = map without_limits (features relimited_assembly)"
    and 4: "limits (featureData (hd (features demo_assembly))) \<noteq> limits (featureData (hd (features relimited_assembly)))"
    by (simp_all add: relimited_assembly_def demo_assembly_def without_limits_def demo_mate_def)
  from joint_range_independent_of_limits [OF 1 2 3, of from_matrix_as_quat demo_meshes "mjcf demo_locals"]
    demo_main demo_plain 4
  show ?thesis by simp
qed

end
